theory Spec2Isabelle
  imports Complex_Main
begin

section \<open>The command pipeline of ASCII Oracle\<close>

text \<open>
  A shallow embedding of \<^verbatim>\<open>frontend/src/utils/commandParser.ts\<close> (tokenizer, parser,
  command registry), of the command executor that imports it (\<^verbatim>\<open>executeCommand\<close> and its
  handlers) and of the \<^verbatim>\<open>chemistry molar\<close> path of the terminal component
  (\<^verbatim>\<open>calcMolarMass\<close> and its caller).

  Modelling decisions.
  \<^item> A JavaScript string is a \<^typ>\<open>string\<close>, one \<^typ>\<open>char\<close> per code unit, for the code
    units U+0000 to U+00FF. On these \<^verbatim>\<open>toLowerCase\<close> maps \<^verbatim>\<open>A\<close>..\<^verbatim>\<open>Z\<close> to
    \<^verbatim>\<open>a\<close>..\<^verbatim>\<open>z\<close> and U+00C0..U+00DE (without U+00D7) to U+00E0..U+00FE, and
    \<^verbatim>\<open>trim\<close> and the regular-expression class \<^verbatim>\<open>\s\<close> take tab, line feed, vertical
    tab, form feed, carriage return, space and the no-break space U+00A0.
  \<^item> The object \<^verbatim>\<open>flags: Record<string, string | boolean>\<close> is a map from flag names
    to flag values: the own properties of the object. It is created as \<^verbatim>\<open>{}\<close>, so an
    assignment to the key \<^verbatim>\<open>__proto__\<close> reaches the setter it inherits, see \<open>setFlag\<close>.
  \<^item> A \<^verbatim>\<open>while\<close> loop over an index is a recursive function on that index, with its
    termination proved; a \<^verbatim>\<open>for\<close> loop over the characters of a string is a
    recursion on the list of characters.
  \<^item> Every handler returns a \<^verbatim>\<open>CommandResult\<close>; a \<^verbatim>\<open>try\<close>/\<^verbatim>\<open>catch\<close> around a
    call that can throw is a case distinction on an optional result. The host state that
    the executor reaches through its context is passed in and returned.
  \<^item> Floating-point atomic masses are exact rationals.
\<close>

subsection \<open>String primitives of the JavaScript library\<close>

definition startsWith :: "string \<Rightarrow> string \<Rightarrow> bool" where
  "startsWith s p = (take (length p) s = p)"

definition includesChar :: "string \<Rightarrow> char \<Rightarrow> bool" where
  "includesChar s c = (c \<in> set s)"

text \<open>
  \<^verbatim>\<open>toLowerCase\<close> on one code unit below U+0100: the capital letters \<^verbatim>\<open>A\<close>..\<^verbatim>\<open>Z\<close>
  and U+00C0..U+00DE, without the multiplication sign U+00D7, move up by 32.
\<close>

definition toLowerChar :: "char \<Rightarrow> char" where
  "toLowerChar c =
     (let n = of_char c :: nat in
      if (0x41 \<le> n \<and> n \<le> 0x5A) \<or> (0xC0 \<le> n \<and> n \<le> 0xD6) \<or> (0xD8 \<le> n \<and> n \<le> 0xDE)
      then char_of (n + 0x20) else c)"

definition toLowerCase :: "string \<Rightarrow> string" where
  "toLowerCase s = map toLowerChar s"

definition isWhiteSpace :: "char \<Rightarrow> bool" where
  "isWhiteSpace c =
     (c \<in> set [CHR 0x09, CHR 0x0A, CHR 0x0B, CHR 0x0C, CHR 0x0D, CHR '' '', CHR 0xA0])"

definition trim :: "string \<Rightarrow> string" where
  "trim s = rev (dropWhile isWhiteSpace (rev (dropWhile isWhiteSpace s)))"

text \<open>
  \<^verbatim>\<open>s.split(d)\<close> for a one-character separator: every occurrence of the separator
  cuts, and the result always has at least one piece.
\<close>

fun splitOn :: "char \<Rightarrow> string \<Rightarrow> string list" where
  "splitOn d [] = [[]]"
| "splitOn d (c # cs) =
     (if c = d then [] # splitOn d cs
      else (c # hd (splitOn d cs)) # tl (splitOn d cs))"

text \<open>\<^verbatim>\<open>xs.join(sep)\<close>.\<close>

fun joinWith :: "string \<Rightarrow> string list \<Rightarrow> string" where
  "joinWith sep [] = []"
| "joinWith sep [x] = x"
| "joinWith sep (x # y # ys) = x @ sep @ joinWith sep (y # ys)"

subsection \<open>The tokenizer\<close>

text \<open>
  The four local variables of \<^verbatim>\<open>tokenize\<close>. \<^verbatim>\<open>quoteChar\<close> is a string in the source
  (empty outside quotes, one character inside), and stays one here.
\<close>

record tok_state =
  tokens :: "string list"
  current :: string
  inQuote :: bool
  quoteChar :: string

definition tok_init :: tok_state where
  "tok_init = \<lparr>tokens = [], current = [], inQuote = False, quoteChar = []\<rparr>"

text \<open>The body of the \<^verbatim>\<open>for\<close> loop, on one character.\<close>

definition tok_step :: "tok_state \<Rightarrow> char \<Rightarrow> tok_state" where
  "tok_step st ch =
     (if (ch = CHR 0x22 \<or> ch = CHR 0x27) \<and> \<not> inQuote st then
        st\<lparr>inQuote := True, quoteChar := [ch]\<rparr>
      else if [ch] = quoteChar st \<and> inQuote st then
        st\<lparr>inQuote := False, quoteChar := []\<rparr>
      else if ch = CHR '' '' \<and> \<not> inQuote st then
        (if current st \<noteq> [] then st\<lparr>tokens := tokens st @ [current st], current := []\<rparr>
         else st)
      else st\<lparr>current := current st @ [ch]\<rparr>)"

fun tok_loop :: "tok_state \<Rightarrow> string \<Rightarrow> tok_state" where
  "tok_loop st [] = st"
| "tok_loop st (ch # rest) = tok_loop (tok_step st ch) rest"

text \<open>After the loop, a non-empty buffer is flushed as the last token.\<close>

definition tok_finish :: "tok_state \<Rightarrow> string list" where
  "tok_finish st = (if current st \<noteq> [] then tokens st @ [current st] else tokens st)"

definition tokenize :: "string \<Rightarrow> string list" where
  "tokenize input = tok_finish (tok_loop tok_init input)"

subsection \<open>The parser\<close>

datatype flag_value = FlagString string | FlagBool bool | FlagUndefined

type_synonym flag_map = "string \<rightharpoonup> flag_value"

record ParsedCommand =
  command :: string
  args :: "string list"
  flags :: flag_map
  raw :: string

text \<open>
  The assignment \<^verbatim>\<open>flags[key] = v\<close> on the plain object \<^verbatim>\<open>flags\<close>. For every key but
  one it creates or overwrites an own property. For the key \<^verbatim>\<open>__proto__\<close> it calls the
  setter inherited from \<^verbatim>\<open>Object.prototype\<close>, which ignores a value that is neither an
  object nor \<^verbatim>\<open>null\<close>: a string, a boolean or \<^verbatim>\<open>undefined\<close> is dropped and the object
  stays as it was.
\<close>

definition setFlag :: "flag_map \<Rightarrow> string \<Rightarrow> flag_value \<Rightarrow> flag_map" where
  "setFlag fl key v = (if key = ''__proto__'' then fl else fl(key \<mapsto> v))"

text \<open>
  \<^verbatim>\<open>const [key, value] = flagPart.split('='); flags[key] = value;\<close>
  The destructuring takes the first two pieces and drops the others. With fewer than two
  pieces the missing names are \<^verbatim>\<open>undefined\<close> (the parser only splits a string that
  contains the separator, so there are always two).
\<close>

definition assign_key_value :: "flag_map \<Rightarrow> string list \<Rightarrow> flag_map" where
  "assign_key_value fl pieces =
     (case pieces of
        key # value # _ \<Rightarrow> setFlag fl key (FlagString value)
      | [key] \<Rightarrow> setFlag fl key FlagUndefined
      | [] \<Rightarrow> setFlag fl ''undefined'' FlagUndefined)"

text \<open>
  The \<^verbatim>\<open>while (i < parts.length)\<close> loop of \<^verbatim>\<open>parseCommand\<close>, with its cursor and
  the two accumulators \<^verbatim>\<open>args\<close> and \<^verbatim>\<open>flags\<close>.
\<close>

function parseLoop :: "string list \<Rightarrow> nat \<Rightarrow> string list \<Rightarrow> flag_map
    \<Rightarrow> string list \<times> flag_map" where
  "parseLoop parts i ar fl =
     (if i < length parts then
        (let part = parts ! i in
         if startsWith part ''--'' then
           (let flagPart = drop 2 part in
            if includesChar flagPart CHR ''='' then
              parseLoop parts (i + 1) ar (assign_key_value fl (splitOn CHR ''='' flagPart))
            else if i + 1 < length parts \<and> \<not> startsWith (parts ! (i + 1)) ''-'' then
              parseLoop parts (i + 1 + 1) ar (setFlag fl flagPart (FlagString (parts ! (i + 1))))
            else
              parseLoop parts (i + 1) ar (setFlag fl flagPart (FlagBool True)))
         else if startsWith part ''-'' \<and> length part = 2 then
           (let flag = drop 1 part in
            if i + 1 < length parts \<and> \<not> startsWith (parts ! (i + 1)) ''-'' then
              parseLoop parts (i + 1 + 1) ar (setFlag fl flag (FlagString (parts ! (i + 1))))
            else
              parseLoop parts (i + 1) ar (setFlag fl flag (FlagBool True)))
         else
           parseLoop parts (i + 1) (ar @ [part]) fl)
      else (ar, fl))"
  by pat_completeness auto
termination
  by (relation "measure (\<lambda>(parts, i, ar, fl). length parts - i)") auto

definition parseCommand :: "string \<Rightarrow> ParsedCommand" where
  "parseCommand input =
     (let raw' = trim input;
          parts = tokenize raw'
      in if length parts = 0 then
           \<lparr>command = [], args = [], flags = Map.empty, raw = raw'\<rparr>
         else
           (let res = parseLoop parts 1 [] Map.empty
            in \<lparr>command = toLowerCase (parts ! 0), args = fst res, flags = snd res,
                raw = raw'\<rparr>))"

declare parseLoop.simps [simp del]

text \<open>
  One turn of the loop body as a function of the cursor and the accumulators, for the
  proofs: \<open>parseLoop_unfold\<close> below shows that the loop is the iteration of this step.
\<close>

definition absorbs :: "string list \<Rightarrow> nat \<Rightarrow> bool" where
  "absorbs parts i \<longleftrightarrow> i + 1 < length parts \<and> \<not> startsWith (parts ! (i + 1)) ''-''"

definition parseStep :: "string list \<Rightarrow> nat \<Rightarrow> string list \<Rightarrow> flag_map
    \<Rightarrow> nat \<times> string list \<times> flag_map" where
  "parseStep parts i ar fl =
     (if startsWith (parts ! i) ''--'' then
        (if includesChar (drop 2 (parts ! i)) CHR ''='' then
           (i + 1, ar, assign_key_value fl (splitOn CHR ''='' (drop 2 (parts ! i))))
         else if absorbs parts i then
           (i + 2, ar, setFlag fl (drop 2 (parts ! i)) (FlagString (parts ! (i + 1))))
         else (i + 1, ar, setFlag fl (drop 2 (parts ! i)) (FlagBool True)))
      else if startsWith (parts ! i) ''-'' \<and> length (parts ! i) = 2 then
        (if absorbs parts i then
           (i + 2, ar, setFlag fl (drop 1 (parts ! i)) (FlagString (parts ! (i + 1))))
         else (i + 1, ar, setFlag fl (drop 1 (parts ! i)) (FlagBool True)))
      else (i + 1, ar @ [parts ! i], fl))"

subsection \<open>The command registry\<close>

definition validCommands :: "string list" where
  "validCommands =
     [''help'', ''draw'', ''upload'', ''hologram'', ''solve'', ''physics'', ''chemistry'',
      ''search'', ''clear'', ''exit'', ''about'', ''version'']"

definition isValidCommand :: "string \<Rightarrow> bool" where
  "isValidCommand cmd = (toLowerCase cmd \<in> set validCommands)"

subsection \<open>Results and the executor's context\<close>

datatype result_type = Info | Success | Error | Warning | Ascii | Math

text \<open>
  \<^verbatim>\<open>CommandResult\<close>. The field \<^verbatim>\<open>output\<close> is \<open>outputStr\<close> here (every result of the
  executor carries a single string); an optional field that is absent is \<open>None\<close>.
\<close>

record CommandResult =
  success :: bool
  outputStr :: string
  type :: result_type
  clear :: "bool option"
  powerUp :: "string option"
  powerUpMessage :: "string option"
  triggerUpload :: "string option"

text \<open>A result literal that sets only \<^verbatim>\<open>success\<close>, \<^verbatim>\<open>output\<close> and \<^verbatim>\<open>type\<close>.\<close>

definition result :: "bool \<Rightarrow> string \<Rightarrow> result_type \<Rightarrow> CommandResult" where
  "result ok out ty =
     \<lparr>success = ok, outputStr = out, type = ty, clear = None, powerUp = None,
      powerUpMessage = None, triggerUpload = None\<rparr>"

text \<open>
  The host state behind \<^verbatim>\<open>ExecutorContext\<close>: what \<^verbatim>\<open>setHologramMode\<close> and
  \<^verbatim>\<open>setHologramData\<close> last stored (\<^verbatim>\<open>{type, text}\<close> as a pair).
\<close>

record ExecutorContext =
  hologramMode :: bool
  hologramData :: "(string \<times> string) option"

text \<open>
  What the executor calls and this development leaves open: the handlers no property
  below depends on, the backend behind \<^verbatim>\<open>fetch('/api/math/solve')\<close> (\<open>Some\<close> of
  \<^verbatim>\<open>data.result\<close> when the response is ok, \<open>None\<close> when it is not or the call
  throws), and the JavaScript engine behind \<^verbatim>\<open>Function(body)()\<close> (\<open>Some\<close> of the
  result as a string, \<open>None\<close> when compiling or running the body throws).
\<close>

record Collaborators =
  executeHelp :: "string list \<Rightarrow> CommandResult"
  executeDraw :: "string list \<Rightarrow> flag_map \<Rightarrow> CommandResult"
  executePhysics :: "string list \<Rightarrow> CommandResult"
  executeChemistry :: "string list \<Rightarrow> CommandResult"
  executeSearch :: "string list \<Rightarrow> CommandResult"
  executeAbout :: CommandResult
  backendSolve :: "string \<Rightarrow> string option"
  evalFunction :: "string \<Rightarrow> string option"

text \<open>\<^verbatim>\<open>args[k] || dflt\<close>: the default stands in for a missing and for an empty argument.\<close>

definition argOr :: "string list \<Rightarrow> nat \<Rightarrow> string \<Rightarrow> string" where
  "argOr as k dflt = (if k < length as \<and> as ! k \<noteq> [] then as ! k else dflt)"

subsection \<open>The handlers\<close>

definition executeUpload :: "string list \<Rightarrow> CommandResult" where
  "executeUpload as =
     (let ty = argOr as 0 ''image'' in
      if ty \<noteq> ''image'' \<and> ty \<noteq> ''video'' then
        result False ''Usage: upload image\<newline>       upload video'' Error
      else
        (result True
           (''Opening '' @ ty @ '' picker... Select a file to convert to ASCII.'') Info)
          \<lparr>triggerUpload := Some ty\<rparr>)"

definition executeHologram :: "string list \<Rightarrow> ExecutorContext
    \<Rightarrow> CommandResult \<times> ExecutorContext" where
  "executeHologram as ctx =
     (let ty = argOr as 0 ''cube'';
          validTypes = [''cube'', ''sphere'', ''text'', ''particles'', ''wave'', ''dna'']
      in if ty \<notin> set validTypes then
           (result False
              (''Invalid hologram type: '' @ ty @ ''\<newline>\<newline>Available: ''
                 @ joinWith '', '' validTypes) Error,
            ctx)
         else
           ((result True
               (''Entering 3D mode: '' @ ty @ ''\<newline>Press ESC or type \"exit\" to return.'')
               Info)
              \<lparr>powerUp := Some ''mushroom'', powerUpMessage := Some ''3D Mode Activated!''\<rparr>,
            ctx\<lparr>hologramData := Some (ty, argOr as 1 ''HELLO''), hologramMode := True\<rparr>))"

text \<open>
  The character class \<^verbatim>\<open>[^0-9+\-*/().sqrt\s]\<close> of the fallback of \<^verbatim>\<open>executeSolve\<close>:
  \<open>solveKeeps c\<close> holds for the characters the replacement leaves in place.
\<close>

definition solveKeeps :: "char \<Rightarrow> bool" where
  "solveKeeps c = (c \<in> set ''0123456789+-*/().sqrt'' \<or> isWhiteSpace c)"

definition sanitize :: "string \<Rightarrow> string" where
  "sanitize expression = filter solveKeeps expression"

text \<open>The second \<^verbatim>\<open>try\<close> block of \<^verbatim>\<open>executeSolve\<close>, reached when the backend gave nothing.\<close>

definition solveFallback :: "Collaborators \<Rightarrow> string \<Rightarrow> CommandResult" where
  "solveFallback env expression =
     (let sanitized = sanitize expression in
      case evalFunction env (''\"use strict\"; return ('' @ sanitized @ '')'') of
        Some res \<Rightarrow> result True (expression @ '' = '' @ res) Info
      | None \<Rightarrow> result False (''Could not evaluate: '' @ expression) Error)"

definition executeSolve :: "Collaborators \<Rightarrow> string list \<Rightarrow> CommandResult" where
  "executeSolve env as =
     (if length as = 0 then
        result False ''Usage: solve <expression>\<newline>Example: solve 2+2'' Error
      else
        (let expression = joinWith '' '' as in
         case backendSolve env expression of
           Some res \<Rightarrow>
             result True (''Expression: '' @ expression @ ''\<newline>Result: '' @ res) Info
         | None \<Rightarrow> solveFallback env expression))"

subsection \<open>The dispatcher\<close>

definition executeCommand :: "Collaborators \<Rightarrow> ParsedCommand \<Rightarrow> ExecutorContext
    \<Rightarrow> CommandResult \<times> ExecutorContext" where
  "executeCommand env parsed ctx =
     (let cmd = command parsed; as = args parsed; fl = flags parsed in
      if cmd = [] then (result True [] Info, ctx)
      else if \<not> isValidCommand cmd then
        (result False
           (''Unknown command: '' @ cmd @ ''\<newline>Type \"help\" for available commands.'')
           Error,
         ctx)
      else if cmd = ''help'' then (executeHelp env as, ctx)
      else if cmd = ''draw'' then (executeDraw env as fl, ctx)
      else if cmd = ''upload'' then (executeUpload as, ctx)
      else if cmd = ''hologram'' then executeHologram as ctx
      else if cmd = ''solve'' then (executeSolve env as, ctx)
      else if cmd = ''physics'' then (executePhysics env as, ctx)
      else if cmd = ''chemistry'' then (executeChemistry env as, ctx)
      else if cmd = ''search'' then (executeSearch env as, ctx)
      else if cmd = ''clear'' then ((result True [] Info)\<lparr>clear := Some True\<rparr>, ctx)
      else if cmd = ''exit'' then
        (result True ''Exited 3D mode'' Info, ctx\<lparr>hologramMode := False\<rparr>)
      else if cmd = ''about'' then (executeAbout env, ctx)
      else if cmd = ''version'' then (result True ''ASCII Oracle v1.0.0'' Info, ctx)
      else (result False ''Command not implemented'' Error, ctx))"

subsection \<open>Molar mass in the terminal component\<close>

text \<open>
  The terminal component has its own \<^verbatim>\<open>chemistry\<close> command, with the table
  \<^verbatim>\<open>ELEMENTS\<close> and \<^verbatim>\<open>calcMolarMass\<close>. The loop
  \<^verbatim>\<open>while ((match = /([A-Z][a-z]?)(\d*)/g.exec(formula)) !== null)\<close> is a scan of the
  formula: skip to the next capital letter, take one small letter if there is one, take
  the digits that follow, and go on behind them.
\<close>

record element =
  elName :: string
  elNumber :: nat
  elMass :: rat
  elCategory :: string

definition mkElement :: "string \<Rightarrow> nat \<Rightarrow> rat \<Rightarrow> string \<Rightarrow> element" where
  "mkElement n k m c = \<lparr>elName = n, elNumber = k, elMass = m, elCategory = c\<rparr>"

definition ELEMENTS :: "(string \<times> element) list" where
  "ELEMENTS =
     [(''h'', mkElement ''Hydrogen'' 1 (1008 / 1000) ''Nonmetal''),
      (''he'', mkElement ''Helium'' 2 (4003 / 1000) ''Noble Gas''),
      (''li'', mkElement ''Lithium'' 3 (6941 / 1000) ''Alkali Metal''),
      (''be'', mkElement ''Beryllium'' 4 (9012 / 1000) ''Alkaline Earth''),
      (''b'', mkElement ''Boron'' 5 (1081 / 100) ''Metalloid''),
      (''c'', mkElement ''Carbon'' 6 (12011 / 1000) ''Nonmetal''),
      (''n'', mkElement ''Nitrogen'' 7 (14007 / 1000) ''Nonmetal''),
      (''o'', mkElement ''Oxygen'' 8 (15999 / 1000) ''Nonmetal''),
      (''f'', mkElement ''Fluorine'' 9 (18998 / 1000) ''Halogen''),
      (''ne'', mkElement ''Neon'' 10 (2018 / 100) ''Noble Gas''),
      (''na'', mkElement ''Sodium'' 11 (2299 / 100) ''Alkali Metal''),
      (''mg'', mkElement ''Magnesium'' 12 (24305 / 1000) ''Alkaline Earth''),
      (''al'', mkElement ''Aluminum'' 13 (26982 / 1000) ''Post-transition''),
      (''si'', mkElement ''Silicon'' 14 (28086 / 1000) ''Metalloid''),
      (''p'', mkElement ''Phosphorus'' 15 (30974 / 1000) ''Nonmetal''),
      (''s'', mkElement ''Sulfur'' 16 (32065 / 1000) ''Nonmetal''),
      (''cl'', mkElement ''Chlorine'' 17 (35453 / 1000) ''Halogen''),
      (''ar'', mkElement ''Argon'' 18 (39948 / 1000) ''Noble Gas''),
      (''k'', mkElement ''Potassium'' 19 (39098 / 1000) ''Alkali Metal''),
      (''ca'', mkElement ''Calcium'' 20 (40078 / 1000) ''Alkaline Earth''),
      (''fe'', mkElement ''Iron'' 26 (55845 / 1000) ''Transition Metal''),
      (''cu'', mkElement ''Copper'' 29 (63546 / 1000) ''Transition Metal''),
      (''zn'', mkElement ''Zinc'' 30 (6538 / 100) ''Transition Metal''),
      (''ag'', mkElement ''Silver'' 47 (107868 / 1000) ''Transition Metal''),
      (''au'', mkElement ''Gold'' 79 (196967 / 1000) ''Transition Metal''),
      (''pb'', mkElement ''Lead'' 82 (2072 / 10) ''Post-transition''),
      (''u'', mkElement ''Uranium'' 92 (238029 / 1000) ''Actinide'')]"

text \<open>The regular-expression classes \<^verbatim>\<open>[A-Z]\<close>, \<^verbatim>\<open>[a-z]\<close> and \<^verbatim>\<open>\d\<close>.\<close>

definition isUpperAZ :: "char \<Rightarrow> bool" where
  "isUpperAZ c = (c \<in> set ''ABCDEFGHIJKLMNOPQRSTUVWXYZ'')"

definition isLowerAZ :: "char \<Rightarrow> bool" where
  "isLowerAZ c = (c \<in> set ''abcdefghijklmnopqrstuvwxyz'')"

definition isDigit :: "char \<Rightarrow> bool" where
  "isDigit c = (c \<in> set ''0123456789'')"

text \<open>\<^verbatim>\<open>parseInt\<close> on a string of decimal digits.\<close>

definition digitValue :: "char \<Rightarrow> nat" where
  "digitValue c = (case map_of (zip ''0123456789'' [0, 1, 2, 3, 4, 5, 6, 7, 8, 9]) c of
                     Some d \<Rightarrow> d | None \<Rightarrow> 0)"

definition parseInt :: "string \<Rightarrow> nat" where
  "parseInt ds = foldl (\<lambda>n d. 10 * n + digitValue d) 0 ds"

function molarScan :: "string \<Rightarrow> rat \<Rightarrow> rat" where
  "molarScan [] mass = mass"
| "molarScan (c # cs) mass =
     (if isUpperAZ c then
        (let lower = (if cs \<noteq> [] \<and> isLowerAZ (hd cs) then [hd cs] else []);
             rest = drop (length lower) cs;
             digits = takeWhile isDigit rest;
             symbol = toLowerCase (c # lower);
             count = (if digits \<noteq> [] then parseInt digits else 1)
         in molarScan (dropWhile isDigit rest)
              (case map_of ELEMENTS symbol of
                 Some el \<Rightarrow> mass + elMass el * of_nat count
               | None \<Rightarrow> mass))
      else molarScan cs mass)"
  by pat_completeness auto
termination
  by (relation "measure (\<lambda>(s, m). length s)")
     (auto intro!: le_imp_less_Suc order_trans [OF length_dropWhile_le])

definition calcMolarMass :: "string \<Rightarrow> rat" where
  "calcMolarMass formula = molarScan formula 0"

text \<open>
  The terminal component reads a line with \<^verbatim>\<open>cmd.trim().split(/\s+/)\<close>: the first part,
  lower-cased, is the command and the others are its arguments. \<open>splitWhitespace cur s\<close>
  is the split of \<open>s\<close> at every run of white space, with \<open>cur\<close> the piece begun so far.
\<close>

function splitWhitespace :: "string \<Rightarrow> string \<Rightarrow> string list" where
  "splitWhitespace cur [] = [cur]"
| "splitWhitespace cur (c # cs) =
     (if isWhiteSpace c then cur # splitWhitespace [] (dropWhile isWhiteSpace cs)
      else splitWhitespace (cur @ [c]) cs)"
  by pat_completeness auto
termination
  by (relation "measure (\<lambda>(cur, s). length s)")
     (auto intro!: le_imp_less_Suc length_dropWhile_le)

definition terminalParts :: "string \<Rightarrow> string list" where
  "terminalParts cmd = splitWhitespace [] (trim cmd)"

text \<open>
  The \<^verbatim>\<open>if\<close> chain of \<^verbatim>\<open>case 'chemistry'\<close>: which branch runs, with the argument it works
  on. \<open>truthy as k\<close> is the test \<^verbatim>\<open>args[k]\<close> of the source: the argument is there and is
  not the empty string.
\<close>

datatype chemistry_case =
  ChemistryHelp | ChemistryElement string | ChemistryMolar string | ChemistryInvalid

definition truthy :: "string list \<Rightarrow> nat \<Rightarrow> bool" where
  "truthy as k \<longleftrightarrow> k < length as \<and> as ! k \<noteq> []"

definition chemistryCase :: "string list \<Rightarrow> chemistry_case" where
  "chemistryCase as =
     (if \<not> truthy as 0 then ChemistryHelp
      else if toLowerCase (as ! 0) = ''element'' \<and> truthy as 1 then ChemistryElement (as ! 1)
      else if toLowerCase (as ! 0) = ''molar'' \<and> truthy as 1 then ChemistryMolar (as ! 1)
      else ChemistryInvalid)"

text \<open>
  \<^verbatim>\<open>mass.toFixed(3)\<close> on an exact rational (of size below \<open>10\<^sup>2\<^sup>1\<close>, where JavaScript
  changes to the exponent form): the nearest multiple of 0.001, the larger one on a tie, in
  decimal digits with at least one digit before the point.
\<close>

fun showNat :: "nat \<Rightarrow> string" where
  "showNat n =
     (if n < 10 then [''0123456789'' ! n]
      else showNat (n div 10) @ [''0123456789'' ! (n mod 10)])"

declare showNat.simps [simp del]

definition toFixed3 :: "rat \<Rightarrow> string" where
  "toFixed3 x =
     (let sgn = (if x < 0 then ''-'' else []);
          n = nat \<lfloor>\<bar>x\<bar> * 1000 + 1 / 2\<rfloor>;
          m = showNat n;
          m' = (if length m \<le> 3 then replicate (3 + 1 - length m) CHR ''0'' @ m else m);
          k = length m'
      in sgn @ take (k - 3) m' @ ''.'' @ drop (k - 3) m')"

text \<open>
  The branch for \<^verbatim>\<open>molar\<close>, as the list of lines that it writes to the terminal
  (\<open>CHR 0x1B\<close> is the escape character of the colour codes).
\<close>

definition chemistryMolar :: "string \<Rightarrow> string list" where
  "chemistryMolar formula =
     (let mass = calcMolarMass formula in
      if mass > 0 then
        ['''',
         [CHR 0x1B] @ ''[36mMolar Mass of '' @ formula @ [CHR 0x1B] @ ''[0m'',
         ''  '' @ [CHR 0x1B] @ ''[32m'' @ toFixed3 mass @ '' g/mol'' @ [CHR 0x1B] @ ''[0m'',
         '''']
      else
        [[CHR 0x1B] @ ''[31mCould not parse formula: '' @ formula @ [CHR 0x1B]
           @ ''[0m\<newline>''])"

text \<open>
  A host with nothing behind it, for the concrete instances below: handlers that answer
  with an empty result, a backend that is not reachable, an engine that throws.
\<close>

definition offline :: Collaborators where
  "offline =
     \<lparr>executeHelp = (\<lambda>as. result True [] Info),
      executeDraw = (\<lambda>as fl. result True [] Info),
      executePhysics = (\<lambda>as. result True [] Info),
      executeChemistry = (\<lambda>as. result True [] Info),
      executeSearch = (\<lambda>as. result True [] Info),
      executeAbout = result True [] Info,
      backendSolve = (\<lambda>e. None),
      evalFunction = (\<lambda>body. None)\<rparr>"

definition idle :: ExecutorContext where
  "idle = \<lparr>hologramMode = False, hologramData = None\<rparr>"


section \<open>Properties\<close>

subsection \<open>Supporting lemmas: strings\<close>

lemma toLowerCase_Nil_iff: "toLowerCase s = [] \<longleftrightarrow> s = []"
  by (simp add: toLowerCase_def)

lemma toLowerChar_idem: "toLowerChar (toLowerChar c) = toLowerChar c"
proof -
  define n where "n = (of_char c :: nat)"
  show ?thesis
  proof (cases "(0x41 \<le> n \<and> n \<le> 0x5A) \<or> (0xC0 \<le> n \<and> n \<le> 0xD6) \<or> (0xD8 \<le> n \<and> n \<le> 0xDE)")
    case True
    then have low: "toLowerChar c = char_of (n + 0x20)"
      by (simp add: toLowerChar_def n_def Let_def)
    from True have "n + 0x20 < 256" by auto
    then have "(of_char (char_of (n + 0x20)) :: nat) = n + 0x20"
      by (simp add: of_char_of)
    with True have "toLowerChar (char_of (n + 0x20)) = char_of (n + 0x20)"
      by (auto simp: toLowerChar_def Let_def)
    with low show ?thesis by simp
  next
    case False
    then have "toLowerChar c = c"
      unfolding toLowerChar_def Let_def n_def by (simp only: if_False)
    then show ?thesis by simp
  qed
qed

lemma toLowerCase_idem: "toLowerCase (toLowerCase s) = toLowerCase s"
  by (simp add: toLowerCase_def toLowerChar_idem)

lemma trim_all_white:
  assumes "\<forall>c\<in>set s. isWhiteSpace c"
  shows "trim s = []"
proof -
  from assms have h: "dropWhile isWhiteSpace s = []" by (induction s) simp_all
  show ?thesis unfolding trim_def h by simp
qed

lemma startsWith_two_dashes: "startsWith p ''--'' \<Longrightarrow> startsWith p ''-''"
  by (cases p) (auto simp: startsWith_def numeral_2_eq_2)

subsection \<open>Supporting lemmas: the tokenizer\<close>

lemma tok_step_tokens_nonempty:
  "[] \<notin> set (tokens st) \<Longrightarrow> [] \<notin> set (tokens (tok_step st ch))"
  by (simp add: tok_step_def)

lemma tok_loop_tokens_nonempty:
  "[] \<notin> set (tokens st) \<Longrightarrow> [] \<notin> set (tokens (tok_loop st s))"
  by (induction s arbitrary: st) (simp_all add: tok_step_tokens_nonempty)

lemma tokenize_no_empty_token: "[] \<notin> set (tokenize s)"
  using tok_loop_tokens_nonempty [of tok_init s]
  by (simp add: tokenize_def tok_finish_def tok_init_def)

lemma tokenize_Nil: "tokenize [] = []"
  by (simp add: tokenize_def tok_finish_def tok_init_def)

lemma tok_loop_append: "tok_loop st (xs @ ys) = tok_loop (tok_loop st xs) ys"
  by (induction xs arbitrary: st) simp_all

text \<open>Inside a quote that is never closed, every character goes to the buffer.\<close>

lemma tok_loop_in_quote:
  "inQuote st \<Longrightarrow> quoteChar st = [q] \<Longrightarrow> q \<notin> set rest \<Longrightarrow>
   tok_loop st rest = st\<lparr>current := current st @ rest\<rparr>"
proof (induction rest arbitrary: st)
  case Nil
  then show ?case by simp
next
  case (Cons ch rest)
  let ?st = "st\<lparr>current := current st @ [ch]\<rparr>"
  from Cons.prems have step: "tok_step st ch = ?st"
    by (auto simp: tok_step_def)
  have "tok_loop ?st rest = ?st\<lparr>current := current ?st @ rest\<rparr>"
    using Cons.prems by (intro Cons.IH) simp_all
  with step show ?case by simp
qed

lemma tok_step_quote_inv:
  "(\<not> inQuote st \<longrightarrow> quoteChar st = []) \<Longrightarrow>
   (\<not> inQuote (tok_step st ch) \<longrightarrow> quoteChar (tok_step st ch) = [])"
  by (simp add: tok_step_def)

lemma tok_loop_quote_inv:
  "(\<not> inQuote st \<longrightarrow> quoteChar st = []) \<Longrightarrow>
   (\<not> inQuote (tok_loop st s) \<longrightarrow> quoteChar (tok_loop st s) = [])"
proof (induction s arbitrary: st)
  case Nil
  then show ?case by simp
next
  case (Cons ch s)
  from tok_step_quote_inv [OF Cons.prems] show ?case
    using Cons.IH [of "tok_step st ch"] by simp
qed

text \<open>A quoted empty string contributes nothing: the scan goes on as if it were not there.\<close>

lemma tokenize_empty_quotes:
  assumes "\<not> inQuote (tok_loop tok_init pre)" and "q = CHR 0x22 \<or> q = CHR 0x27"
  shows "tokenize (pre @ q # q # post) = tokenize (pre @ post)"
proof -
  define st where "st = tok_loop tok_init pre"
  have nq: "\<not> inQuote st" using assms(1) by (simp add: st_def)
  have "\<not> inQuote st \<longrightarrow> quoteChar st = []"
    unfolding st_def by (rule tok_loop_quote_inv) (simp add: tok_init_def)
  with nq have qc: "quoteChar st = []" by simp
  have "tok_step st q = st\<lparr>inQuote := True, quoteChar := [q]\<rparr>"
    using nq assms(2) by (auto simp: tok_step_def)
  moreover have "tok_step (st\<lparr>inQuote := True, quoteChar := [q]\<rparr>) q = st"
    using nq qc assms(2) by (auto simp: tok_step_def)
  ultimately have "tok_loop st (q # q # post) = tok_loop st post" by simp
  then show ?thesis
    by (simp add: tokenize_def tok_loop_append st_def)
qed
subsection \<open>Supporting lemmas: the parser loop\<close>

lemma parseLoop_unfold:
  "i < length parts \<Longrightarrow>
   parseLoop parts i ar fl =
     (case parseStep parts i ar fl of (i', ar', fl') \<Rightarrow> parseLoop parts i' ar' fl')"
  by (subst parseLoop.simps) (simp add: parseStep_def absorbs_def Let_def)

lemma parseLoop_done: "length parts \<le> i \<Longrightarrow> parseLoop parts i ar fl = (ar, fl)"
  by (subst parseLoop.simps) simp

text \<open>
  A token that starts with a dash is never taken as the value of the flag before it, so
  what the loop does before such a token does not depend on what comes after.
\<close>

lemma absorbs_take:
  assumes "i < j" "j < length parts" "startsWith (parts ! j) ''-''"
  shows "absorbs (take j parts) i = absorbs parts i"
proof (cases "i + 1 = j")
  case True
  then show ?thesis using assms by (auto simp: absorbs_def)
next
  case False
  with assms have "i + 1 < j" by simp
  then show ?thesis using assms by (auto simp: absorbs_def)
qed

lemma absorbs_below:
  assumes "i < j" "j < length parts" "startsWith (parts ! j) ''-''" "absorbs parts i"
  shows "i + 1 < j"
proof -
  from assms(4) have "\<not> startsWith (parts ! (i + 1)) ''-''" by (simp add: absorbs_def)
  with assms(3) have "i + 1 \<noteq> j" by auto
  with assms(1) show ?thesis by simp
qed

lemma parseStep_take:
  assumes "i < j" "j < length parts" "startsWith (parts ! j) ''-''"
  shows "parseStep (take j parts) i ar fl = parseStep parts i ar fl"
proof -
  have "take j parts ! i = parts ! i" using assms by simp
  moreover have "absorbs parts i \<Longrightarrow> take j parts ! (i + 1) = parts ! (i + 1)"
    using absorbs_below [OF assms] by simp
  ultimately show ?thesis
    by (simp add: parseStep_def absorbs_take [OF assms])
qed

lemma parseStep_cursor:
  assumes "i < j" "j < length parts" "startsWith (parts ! j) ''-''"
  shows "i < fst (parseStep parts i ar fl) \<and> fst (parseStep parts i ar fl) \<le> j"
  using absorbs_below [OF assms] assms(1) by (auto simp: parseStep_def)

lemma parseLoop_split:
  assumes j: "j < length parts" and dash: "startsWith (parts ! j) ''-''"
  shows "i \<le> j \<Longrightarrow>
         parseLoop parts i ar fl =
         parseLoop parts j (fst (parseLoop (take j parts) i ar fl))
                           (snd (parseLoop (take j parts) i ar fl))"
proof (induction "j - i" arbitrary: i ar fl rule: less_induct)
  case less
  let ?pre = "take j parts"
  show ?case
  proof (cases "i = j")
    case True
    have "parseLoop ?pre j ar fl = (ar, fl)"
      using j by (intro parseLoop_done) simp
    with True show ?thesis by simp
  next
    case False
    with less.prems have lt: "i < j" by simp
    obtain i' a' f' where st: "parseStep parts i ar fl = (i', a', f')"
      by (cases "parseStep parts i ar fl") auto
    have st': "parseStep ?pre i ar fl = (i', a', f')"
      using parseStep_take [OF lt j dash] st by simp
    have cur: "i < i'" "i' \<le> j"
      using parseStep_cursor [OF lt j dash, of ar fl] st by simp_all
    have full: "parseLoop parts i ar fl = parseLoop parts i' a' f'"
      using lt j st by (subst parseLoop_unfold) simp_all
    have pre: "parseLoop ?pre i ar fl = parseLoop ?pre i' a' f'"
      using lt j st' by (subst parseLoop_unfold) simp_all
    have "parseLoop parts i' a' f' =
          parseLoop parts j (fst (parseLoop ?pre i' a' f')) (snd (parseLoop ?pre i' a' f'))"
      using cur by (intro less.hyps) simp_all
    with full pre show ?thesis by simp
  qed
qed

text \<open>The loop only ever appends to \<^verbatim>\<open>args\<close>.\<close>

lemma parseLoop_args_prefix:
  "\<exists>later. fst (parseLoop parts i ar fl) = ar @ later"
proof (induction "length parts - i" arbitrary: i ar fl rule: less_induct)
  case less
  show ?case
  proof (cases "i < length parts")
    case False
    then show ?thesis by (simp add: parseLoop_done)
  next
    case True
    obtain i' a' f' where st: "parseStep parts i ar fl = (i', a', f')"
      by (cases "parseStep parts i ar fl") auto
    then have "i < i'" and "\<exists>x. a' = ar @ x"
      by (auto simp: parseStep_def split: if_splits)
    moreover have "\<exists>later. fst (parseLoop parts i' a' f') = a' @ later"
      using \<open>i < i'\<close> True by (intro less.hyps) simp
    ultimately show ?thesis using True st by (auto simp: parseLoop_unfold)
  qed
qed

text \<open>What \<^verbatim>\<open>parseCommand\<close> returns when there is at least one token.\<close>

lemma parseCommand_tokens:
  assumes "tokenize (trim input) = parts" and "parts \<noteq> []"
  shows "(args (parseCommand input), flags (parseCommand input)) =
           parseLoop parts 1 [] Map.empty"
    and "command (parseCommand input) = toLowerCase (parts ! 0)"
  using assms by (simp_all add: parseCommand_def Let_def)

text \<open>
  The state in which the cursor reaches a token that starts with a dash is the state the
  loop ends in on the tokens before it.
\<close>

lemma parseCommand_reaches:
  assumes "tokenize (trim input) = parts" and "1 \<le> i" and "i < length parts"
      and "startsWith (parts ! i) ''-''"
      and "parseLoop (take i parts) 1 [] Map.empty = (ar, fl)"
  shows "(args (parseCommand input), flags (parseCommand input)) =
           (case parseStep parts i ar fl of (i', ar', fl') \<Rightarrow> parseLoop parts i' ar' fl')"
proof -
  from assms(3) have ne: "parts \<noteq> []" by auto
  have "parseLoop parts 1 [] Map.empty = parseLoop parts i ar fl"
    using parseLoop_split [OF assms(3,4), of 1 "[]" Map.empty] assms(2,5) by simp
  then show ?thesis
    using parseCommand_tokens(1) [OF assms(1) ne] assms(3) by (simp add: parseLoop_unfold)
qed

text \<open>
  The parser lower-cases the command, so on what it returns the registry test of
  \<^verbatim>\<open>isValidCommand\<close> is plain membership in the list.
\<close>

lemma isValidCommand_parsed:
  "command (parseCommand s) \<noteq> [] \<Longrightarrow>
   isValidCommand (command (parseCommand s)) \<longleftrightarrow>
     command (parseCommand s) \<in> set validCommands"
  by (cases "tokenize (trim s)")
     (simp_all add: parseCommand_def Let_def isValidCommand_def toLowerCase_idem)

subsection \<open>The dispatcher\<close>

text \<open>
  C1. A command that is not empty and that the registry test \<^verbatim>\<open>isValidCommand\<close> does not
  accept gets the result \<^verbatim>\<open>success: false\<close>, \<^verbatim>\<open>type: 'error'\<close>, with the output
  \<^verbatim>\<open>Unknown command: \<close> followed by the command name and the hint to type help. No handler
  runs and the context is left as it was; the function returns a result and does not throw.
\<close>

theorem executeCommand_unknown_command:
  assumes "command parsed \<noteq> []" and "\<not> isValidCommand (command parsed)"
  shows "executeCommand env parsed ctx =
           (\<lparr>success = False,
             outputStr = ''Unknown command: '' @ command parsed
                           @ ''\<newline>Type \"help\" for available commands.'',
             type = Error, clear = None, powerUp = None, powerUpMessage = None,
             triggerUpload = None\<rparr>,
            ctx)"
  using assms by (simp add: executeCommand_def result_def Let_def)

theorem executeCommand_unknown_command_witness:
  "executeCommand offline (parseCommand ''foobar'') idle =
     (\<lparr>success = False,
       outputStr = ''Unknown command: foobar\<newline>Type \"help\" for available commands.'',
       type = Error, clear = None, powerUp = None, powerUpMessage = None,
       triggerUpload = None\<rparr>,
      idle)"
proof -
  have c: "command (parseCommand ''foobar'') = ''foobar''"
    by code_simp
  have "\<not> isValidCommand ''foobar''"
    by code_simp
  then have "command (parseCommand ''foobar'') \<noteq> []"
    and "\<not> isValidCommand (command (parseCommand ''foobar''))"
    unfolding c by simp_all
  from executeCommand_unknown_command [OF this, of offline idle] show ?thesis
    unfolding c by simp
qed

subsection \<open>The parser\<close>

text \<open>
  C2, as the specification states it, fails: for the input \<^verbatim>\<open>help\<close> the arguments and the
  flags are empty and the command is not.
\<close>

theorem parseCommand_empty_iff_counterexample:
  "\<not> (command (parseCommand ''help'') = [] \<longleftrightarrow>
        args (parseCommand ''help'') = [] \<and> flags (parseCommand ''help'') = Map.empty)"
proof -
  have t: "tokenize (trim ''help'') = [''help'']"
    by code_simp
  have "parseLoop [''help''] 1 [] Map.empty = ([], Map.empty)"
    by (simp add: parseLoop_done)
  with parseCommand_tokens [OF t] have
    "args (parseCommand ''help'') = []" "flags (parseCommand ''help'') = Map.empty"
    "command (parseCommand ''help'') \<noteq> []"
    by (simp_all add: toLowerCase_Nil_iff)
  then show ?thesis by simp
qed

text \<open>
  C2, amended. The command is empty exactly when the trimmed input has no token; then the
  arguments and the flags are empty too (the converse fails, see above). An input of white
  space only is parsed to the empty command, with no arguments and no flags.
\<close>

theorem parseCommand_blank_invariant:
  "(command (parseCommand s) = [] \<longleftrightarrow> tokenize (trim s) = []) \<and>
   (command (parseCommand s) = [] \<longrightarrow>
      args (parseCommand s) = [] \<and> flags (parseCommand s) = Map.empty) \<and>
   ((\<forall>c\<in>set s. isWhiteSpace c) \<longrightarrow>
      parseCommand s = \<lparr>command = [], args = [], flags = Map.empty, raw = []\<rparr>)"
proof -
  have iff: "command (parseCommand s) = [] \<longleftrightarrow> tokenize (trim s) = []"
  proof (cases "tokenize (trim s)")
    case Nil
    then show ?thesis by (simp add: parseCommand_def)
  next
    case (Cons t ts)
    with tokenize_no_empty_token [of "trim s"] have "t \<noteq> []" by auto
    with Cons show ?thesis by (simp add: parseCommand_def Let_def toLowerCase_Nil_iff)
  qed
  have empty: "args (parseCommand s) = [] \<and> flags (parseCommand s) = Map.empty"
    if "tokenize (trim s) = []"
    using that by (simp add: parseCommand_def)
  have blank: "parseCommand s = \<lparr>command = [], args = [], flags = Map.empty, raw = []\<rparr>"
    if "\<forall>c\<in>set s. isWhiteSpace c"
    using trim_all_white [OF that] by (simp add: parseCommand_def tokenize_Nil)
  from iff empty blank show ?thesis by blast
qed

theorem parseCommand_blank_invariant_witness:
  "command (parseCommand ''   '') = [] \<and> tokenize (trim ''   '') = [] \<and>
   args (parseCommand ''   '') = [] \<and> flags (parseCommand ''   '') = Map.empty \<and>
   parseCommand ''   '' = \<lparr>command = [], args = [], flags = Map.empty, raw = []\<rparr>"
proof -
  note inv = parseCommand_blank_invariant [of "''   ''"]
  have "\<forall>c\<in>set ''   ''. isWhiteSpace c"
    by (simp add: isWhiteSpace_def)
  with inv have blank:
    "parseCommand ''   '' = \<lparr>command = [], args = [], flags = Map.empty, raw = []\<rparr>"
    by blast
  then have "command (parseCommand ''   '') = []" by simp
  with inv blank show ?thesis by blast
qed

text \<open>
  C3. The parser splits the text after \<^verbatim>\<open>--\<close> at every \<^verbatim>\<open>=\<close> and keeps the first two
  pieces: for \<^verbatim>\<open>--a=b=c\<close> the stored value is \<^verbatim>\<open>b\<close>, and the rest of the value is lost.
\<close>

theorem parseCommand_long_flag_second_equals:
  "flags (parseCommand ''cmd --a=b=c'') ''a'' = Some (FlagString ''b'') \<and>
   flags (parseCommand ''cmd --a=b=c'') ''a'' \<noteq> Some (FlagString ''b=c'')"
proof -
  have "flags (parseCommand ''cmd --a=b=c'') ''a'' = Some (FlagString ''b'')"
    by code_simp
  then show ?thesis by simp
qed

text \<open>
  How the loop treats a flag without \<^verbatim>\<open>=\<close>. Let the token at position \<open>i \<ge> 1\<close> be a long
  flag \<^verbatim>\<open>--name\<close> without \<^verbatim>\<open>=\<close>, or a short flag of exactly two characters, and let
  \<open>(ar, fl)\<close> be the arguments and flags that the tokens before it produce. If a next token
  exists and does not start with a dash, the flag is assigned that token as a string and
  parsing goes on behind the value, which is not added to the arguments; otherwise the flag
  is assigned the boolean \<^verbatim>\<open>true\<close> and parsing goes on at the next token. The assignment
  is \<open>setFlag\<close>: it stores the value under every name but \<^verbatim>\<open>__proto__\<close>.
\<close>

lemma parseCommand_flag_absorption:
  assumes "tokenize (trim input) = parts" and "1 \<le> i" and "i < length parts"
      and "(startsWith (parts ! i) ''--'' \<and> \<not> includesChar (drop 2 (parts ! i)) CHR ''=''
              \<and> name = drop 2 (parts ! i))
           \<or> (\<not> startsWith (parts ! i) ''--'' \<and> startsWith (parts ! i) ''-''
              \<and> length (parts ! i) = 2 \<and> name = drop 1 (parts ! i))"
      and "parseLoop (take i parts) 1 [] Map.empty = (ar, fl)"
  shows "(args (parseCommand input), flags (parseCommand input)) =
           (if i + 1 < length parts \<and> \<not> startsWith (parts ! (i + 1)) ''-''
            then parseLoop parts (i + 2) ar (setFlag fl name (FlagString (parts ! (i + 1))))
            else parseLoop parts (i + 1) ar (setFlag fl name (FlagBool True)))"
proof -
  have dash: "startsWith (parts ! i) ''-''"
    using assms(4) startsWith_two_dashes by blast
  have "parseStep parts i ar fl =
          (if absorbs parts i
           then (i + 2, ar, setFlag fl name (FlagString (parts ! (i + 1))))
           else (i + 1, ar, setFlag fl name (FlagBool True)))"
    using assms(4) by (auto simp: parseStep_def)
  with parseCommand_reaches [OF assms(1,2,3) dash assms(5)] show ?thesis
    by (simp add: absorbs_def)
qed

text \<open>The examples of the specification: \<^verbatim>\<open>-w 80\<close>, \<^verbatim>\<open>-w --other\<close>, \<^verbatim>\<open>--unit kg\<close>.\<close>

lemma parseCommand_flag_examples:
  "(args (parseCommand ''cmd -w 80''), flags (parseCommand ''cmd -w 80'')) =
      ([], Map.empty(''w'' \<mapsto> FlagString ''80'')) \<and>
   (args (parseCommand ''cmd -w --other''), flags (parseCommand ''cmd -w --other'')) =
      ([], Map.empty(''w'' \<mapsto> FlagBool True, ''other'' \<mapsto> FlagBool True)) \<and>
   (args (parseCommand ''physics force --unit kg''),
    flags (parseCommand ''physics force --unit kg'')) =
      ([''force''], Map.empty(''unit'' \<mapsto> FlagString ''kg''))"
proof -
  have t1: "tokenize (trim ''cmd -w 80'') = [''cmd'', ''-w'', ''80'']"
    by code_simp
  have t2: "tokenize (trim ''cmd -w --other'') = [''cmd'', ''-w'', ''--other'']"
    by code_simp
  have t3: "tokenize (trim ''physics force --unit kg'') =
              [''physics'', ''force'', ''--unit'', ''kg'']"
    by code_simp
  have pre1: "parseLoop [''cmd''] 1 [] Map.empty = ([], Map.empty)"
    by (simp add: parseLoop_done)
  have pre3: "parseLoop [''physics'', ''force''] 1 [] Map.empty = ([''force''], Map.empty)"
    by (simp add: parseLoop_unfold parseLoop_done parseStep_def startsWith_def)
  have "(args (parseCommand ''cmd -w 80''), flags (parseCommand ''cmd -w 80'')) =
          ([], Map.empty(''w'' \<mapsto> FlagString ''80''))"
    using parseCommand_flag_absorption [OF t1, of 1 "''w''" "[]" Map.empty] pre1
    by (simp add: startsWith_def parseLoop_done setFlag_def)
  moreover
  have "(args (parseCommand ''cmd -w --other''), flags (parseCommand ''cmd -w --other'')) =
          ([], Map.empty(''w'' \<mapsto> FlagBool True, ''other'' \<mapsto> FlagBool True))"
    using parseCommand_flag_absorption [OF t2, of 1 "''w''" "[]" Map.empty] pre1
    by (simp add: startsWith_def parseLoop_unfold parseLoop_done parseStep_def
        includesChar_def absorbs_def setFlag_def)
  moreover
  have "(args (parseCommand ''physics force --unit kg''),
         flags (parseCommand ''physics force --unit kg'')) =
          ([''force''], Map.empty(''unit'' \<mapsto> FlagString ''kg''))"
    using parseCommand_flag_absorption [OF t3, of 2 "''unit''" "[''force'']" Map.empty] pre3
    by (simp add: startsWith_def includesChar_def parseLoop_done setFlag_def)
  ultimately show ?thesis by simp
qed

text \<open>
  C4. For the flag \<^verbatim>\<open>--__proto__\<close> the parser does not do what the claim says of every
  flag without \<^verbatim>\<open>=\<close>. In \<^verbatim>\<open>cmd --__proto__ y\<close> the token \<^verbatim>\<open>y\<close> is taken as the value of
  the flag and skipped, so it is not an argument, but the assignment stores nothing: the
  parsed command has no flag at all, and the value is lost. In \<^verbatim>\<open>cmd --__proto__\<close> the
  flag is not stored as \<^verbatim>\<open>true\<close> either. For every other flag name the claim holds
  (\<open>parseCommand_flag_absorption\<close>, \<open>parseCommand_flag_examples\<close>).
\<close>

theorem parseCommand_proto_flag_not_stored:
  "tokenize (trim ''cmd --__proto__ y'') = [''cmd'', ''--__proto__'', ''y''] \<and>
   args (parseCommand ''cmd --__proto__ y'') = [] \<and>
   flags (parseCommand ''cmd --__proto__ y'') = Map.empty \<and>
   flags (parseCommand ''cmd --__proto__ y'') ''__proto__'' \<noteq> Some (FlagString ''y'') \<and>
   flags (parseCommand ''cmd --__proto__'') = Map.empty \<and>
   flags (parseCommand ''cmd --__proto__'') ''__proto__'' \<noteq> Some (FlagBool True)"
proof -
  have t1: "tokenize (trim ''cmd --__proto__ y'') = [''cmd'', ''--__proto__'', ''y'']"
    by code_simp
  have t2: "tokenize (trim ''cmd --__proto__'') = [''cmd'', ''--__proto__'']"
    by code_simp
  have pre: "parseLoop [''cmd''] 1 [] Map.empty = ([], Map.empty)"
    by (simp add: parseLoop_done)
  have r1: "(args (parseCommand ''cmd --__proto__ y''),
             flags (parseCommand ''cmd --__proto__ y'')) = ([], Map.empty)"
    using parseCommand_flag_absorption [OF t1, of 1 "''__proto__''" "[]" Map.empty] pre
    by (simp add: startsWith_def includesChar_def parseLoop_done setFlag_def)
  have r2: "(args (parseCommand ''cmd --__proto__''),
             flags (parseCommand ''cmd --__proto__'')) = ([], Map.empty)"
    using parseCommand_flag_absorption [OF t2, of 1 "''__proto__''" "[]" Map.empty] pre
    by (simp add: startsWith_def includesChar_def parseLoop_done setFlag_def)
  from t1 r1 r2 show ?thesis by simp
qed

text \<open>
  C5. A token at position \<open>i \<ge> 1\<close> that starts with one dash, does not start with two and
  does not have exactly two characters is a positional argument: it is appended to the
  arguments of the tokens before it, the flags stay as they are, parsing goes on at the
  next token, and the arguments of the later tokens come behind it.
\<close>

theorem parseCommand_single_dash_positional:
  assumes "tokenize (trim input) = parts" and "1 \<le> i" and "i < length parts"
      and "startsWith (parts ! i) ''-''" and "\<not> startsWith (parts ! i) ''--''"
      and "length (parts ! i) \<noteq> 2"
      and "parseLoop (take i parts) 1 [] Map.empty = (ar, fl)"
  shows "(args (parseCommand input), flags (parseCommand input)) =
           parseLoop parts (i + 1) (ar @ [parts ! i]) fl \<and>
         (\<exists>later. args (parseCommand input) = ar @ [parts ! i] @ later)"
proof -
  have "parseStep parts i ar fl = (i + 1, ar @ [parts ! i], fl)"
    using assms(5,6) by (simp add: parseStep_def)
  with parseCommand_reaches [OF assms(1,2,3,4,7)]
  have eq: "(args (parseCommand input), flags (parseCommand input)) =
              parseLoop parts (i + 1) (ar @ [parts ! i]) fl"
    by simp
  obtain later where
    "fst (parseLoop parts (i + 1) (ar @ [parts ! i]) fl) = (ar @ [parts ! i]) @ later"
    using parseLoop_args_prefix by blast
  with eq have "args (parseCommand input) = ar @ [parts ! i] @ later"
    by (metis append.assoc fst_conv)
  with eq show ?thesis by blast
qed

theorem parseCommand_single_dash_positional_witness:
  "(args (parseCommand ''draw cat -width 80''), flags (parseCommand ''draw cat -width 80'')) =
      parseLoop [''draw'', ''cat'', ''-width'', ''80''] 3 [''cat'', ''-width''] Map.empty \<and>
   (\<exists>later. args (parseCommand ''draw cat -width 80'') = [''cat'', ''-width''] @ later)"
proof -
  have t: "tokenize (trim ''draw cat -width 80'') = [''draw'', ''cat'', ''-width'', ''80'']"
    by code_simp
  have pre: "parseLoop [''draw'', ''cat''] 1 [] Map.empty = ([''cat''], Map.empty)"
    by (simp add: parseLoop_unfold parseLoop_done parseStep_def startsWith_def)
  show ?thesis
    using parseCommand_single_dash_positional [OF t, of 2 "[''cat'']" Map.empty] pre
    by (simp add: startsWith_def)
qed

subsection \<open>The tokenizer\<close>

text \<open>
  C6. When a quote character opens a quote (the scan of the text before it ends outside
  quotes) and the same character does not occur again, \<^verbatim>\<open>tokenize\<close> returns the tokens
  completed so far followed by one token: the buffer at the quote with the whole rest of
  the input appended, spaces included (no token if that is empty). No error is raised. For
  \<^verbatim>\<open>say "hello\<close> the tokens are \<^verbatim>\<open>say\<close> and \<^verbatim>\<open>hello\<close>.
\<close>

theorem tokenize_unterminated_quote:
  assumes "\<not> inQuote (tok_loop tok_init pre)"
      and "q = CHR 0x22 \<or> q = CHR 0x27"
      and "q \<notin> set rest"
  shows "tokenize (pre @ q # rest) =
           tokens (tok_loop tok_init pre) @
           (if current (tok_loop tok_init pre) @ rest = [] then []
            else [current (tok_loop tok_init pre) @ rest])"
proof -
  define st where "st = tok_loop tok_init pre"
  define st' where "st' = st\<lparr>inQuote := True, quoteChar := [q]\<rparr>"
  have "tok_step st q = st'"
    using assms(1,2) by (auto simp: tok_step_def st_def st'_def)
  moreover have "tok_loop st' rest = st'\<lparr>current := current st' @ rest\<rparr>"
    using assms(3) by (intro tok_loop_in_quote) (simp_all add: st'_def)
  ultimately have "tok_loop tok_init (pre @ q # rest) = st'\<lparr>current := current st' @ rest\<rparr>"
    by (simp add: tok_loop_append st_def)
  then show ?thesis
    by (simp add: tokenize_def tok_finish_def st'_def st_def)
qed

theorem tokenize_unterminated_quote_witness:
  "tokenize ''say \"hello'' = [''say'', ''hello''] \<and>
   tokenize ''say \"hello big world'' = [''say'', ''hello big world'']"
proof -
  have "tokenize (''say '' @ CHR 0x22 # ''hello'') = [''say'', ''hello'']"
    using tokenize_unterminated_quote [of "''say ''" "CHR 0x22" "''hello''"]
    by (simp add: tok_init_def tok_step_def)
  moreover
  have "tokenize (''say '' @ CHR 0x22 # ''hello big world'') = [''say'', ''hello big world'']"
    using tokenize_unterminated_quote [of "''say ''" "CHR 0x22" "''hello big world''"]
    by (simp add: tok_init_def tok_step_def)
  ultimately show ?thesis by simp
qed

text \<open>
  C10. No token that \<^verbatim>\<open>tokenize\<close> returns is the empty string. A quoted empty string,
  with double or with single quotes, leaves no token: \<^verbatim>\<open>draw "" x\<close> has the tokens
  \<^verbatim>\<open>draw\<close> and \<^verbatim>\<open>x\<close>, and the parsed command has the one argument \<^verbatim>\<open>x\<close>. (In
  general the scan goes on behind an empty pair of quotes as if it were not there, see
  \<open>tokenize_empty_quotes\<close>.)
\<close>

theorem tokenize_tokens_nonempty:
  "[] \<notin> set (tokenize s) \<and>
   tokenize ''draw \"\" x'' = [''draw'', ''x''] \<and>
   tokenize (''draw '' @ [CHR 0x27, CHR 0x27] @ '' x'') = [''draw'', ''x''] \<and>
   args (parseCommand ''draw \"\" x'') = [''x'']"
proof -
  have "tokenize ''draw \"\" x'' = [''draw'', ''x'']"
    by code_simp
  moreover have "tokenize (''draw '' @ [CHR 0x27, CHR 0x27] @ '' x'') = [''draw'', ''x'']"
    by code_simp
  moreover have "args (parseCommand ''draw \"\" x'') = [''x'']"
    by code_simp
  ultimately show ?thesis
    using tokenize_no_empty_token [of s] by simp
qed

subsection \<open>The handlers\<close>

text \<open>
  C7, as the specification states it, fails: without a type argument \<^verbatim>\<open>upload\<close> is not a
  usage error.
\<close>

theorem executeUpload_missing_type_counterexample:
  "\<not> (success (executeUpload []) = False \<and> type (executeUpload []) = Error)"
  by (simp add: executeUpload_def argOr_def result_def)

text \<open>
  C7, amended. Without a type argument, or with an empty one, the handler takes
  \<^verbatim>\<open>image\<close> and returns a success result whose \<^verbatim>\<open>triggerUpload\<close> is \<^verbatim>\<open>image\<close>. With the
  argument \<^verbatim>\<open>image\<close> or \<^verbatim>\<open>video\<close> it returns a success result whose \<^verbatim>\<open>triggerUpload\<close> is
  that type. With any other argument it returns the usage error (\<^verbatim>\<open>success: false\<close>,
  \<^verbatim>\<open>type: 'error'\<close>), without \<^verbatim>\<open>triggerUpload\<close>.
\<close>

theorem executeUpload_cases:
  "(as = [] \<or> hd as = [] \<longrightarrow>
      success (executeUpload as) \<and> type (executeUpload as) = Info \<and>
      triggerUpload (executeUpload as) = Some ''image'') \<and>
   (as \<noteq> [] \<and> (hd as = ''image'' \<or> hd as = ''video'') \<longrightarrow>
      success (executeUpload as) \<and> type (executeUpload as) = Info \<and>
      triggerUpload (executeUpload as) = Some (hd as)) \<and>
   (as \<noteq> [] \<and> hd as \<noteq> [] \<and> hd as \<noteq> ''image'' \<and> hd as \<noteq> ''video'' \<longrightarrow>
      \<not> success (executeUpload as) \<and> type (executeUpload as) = Error \<and>
      outputStr (executeUpload as) = ''Usage: upload image\<newline>       upload video'' \<and>
      triggerUpload (executeUpload as) = None)"
  by (cases as) (auto simp: executeUpload_def argOr_def result_def Let_def)

theorem executeUpload_cases_witness:
  "(success (executeUpload []) \<and> type (executeUpload []) = Info \<and>
      triggerUpload (executeUpload []) = Some ''image'') \<and>
   (success (executeUpload [''video'']) \<and> type (executeUpload [''video'']) = Info \<and>
      triggerUpload (executeUpload [''video'']) = Some ''video'') \<and>
   (\<not> success (executeUpload [''pdf'']) \<and> type (executeUpload [''pdf'']) = Error \<and>
      triggerUpload (executeUpload [''pdf'']) = None)"
  using executeUpload_cases [of "[]"] executeUpload_cases [of "[''video'']"]
    executeUpload_cases [of "[''pdf'']"]
  by simp

text \<open>
  C8. With the backend out of reach, \<^verbatim>\<open>solve 2+2 DROP TABLE\<close> is not rejected: the fallback
  of \<^verbatim>\<open>executeSolve\<close> deletes the letters it does not allow and hands what is left,
  \<^verbatim>\<open>2+2\<close> and two spaces, to the engine; when the engine returns a value the result is a
  success. For \<^verbatim>\<open>DROP TABLE\<close> alone one space is left.
\<close>

theorem executeSolve_strips_and_evaluates:
  "sanitize ''2+2 DROP TABLE'' = ''2+2  '' \<and>
   sanitize ''DROP TABLE'' = '' '' \<and>
   executeSolve (env\<lparr>backendSolve := (\<lambda>e. None)\<rparr>) [''2+2'', ''DROP'', ''TABLE''] =
     (case evalFunction env ''\"use strict\"; return (2+2  )'' of
        Some res \<Rightarrow> result True (''2+2 DROP TABLE = '' @ res) Info
      | None \<Rightarrow> result False ''Could not evaluate: 2+2 DROP TABLE'' Error)"
proof -
  have s1: "sanitize ''2+2 DROP TABLE'' = ''2+2  ''"
    by (simp add: sanitize_def solveKeeps_def isWhiteSpace_def)
  have s2: "sanitize ''DROP TABLE'' = '' ''"
    by (simp add: sanitize_def solveKeeps_def isWhiteSpace_def)
  have "joinWith '' '' [''2+2'', ''DROP'', ''TABLE''] = ''2+2 DROP TABLE''"
    by simp
  then have "executeSolve (env\<lparr>backendSolve := (\<lambda>e. None)\<rparr>) [''2+2'', ''DROP'', ''TABLE''] =
     (case evalFunction env ''\"use strict\"; return (2+2  )'' of
        Some res \<Rightarrow> result True (''2+2 DROP TABLE = '' @ res) Info
      | None \<Rightarrow> result False ''Could not evaluate: 2+2 DROP TABLE'' Error)"
    by (simp add: executeSolve_def solveFallback_def s1 Let_def split: option.split)
  with s1 s2 show ?thesis by simp
qed

text \<open>
  The molar mass that \<^verbatim>\<open>calcMolarMass\<close> computes for \<^verbatim>\<open>H2O\<close>: twice the mass of hydrogen
  and once the mass of oxygen, 18.015.
\<close>

lemma calcMolarMass_H2O:
  "calcMolarMass ''H2O'' = 2 * (1008 / 1000) + 1 * (15999 / 1000) \<and>
   calcMolarMass ''H2O'' = 18015 / 1000"
proof -
  have "toLowerCase ''H'' = ''h''" and "toLowerCase ''O'' = ''o''"
    by code_simp+
  then show ?thesis
    by (simp add: calcMolarMass_def Let_def isUpperAZ_def isLowerAZ_def isDigit_def
        parseInt_def digitValue_def ELEMENTS_def mkElement_def)
qed

lemma toFixed3_18015: "toFixed3 (18015 / 1000) = ''18.015''"
proof -
  have "\<lfloor>\<bar>18015 / 1000 :: rat\<bar> * 1000 + 1 / 2\<rfloor> = 18015"
    by (simp add: floor_eq_iff)
  moreover have "showNat 18015 = ''18015''"
    by (simp add: showNat.simps [of 18015] showNat.simps [of 1801] showNat.simps [of 180]
        showNat.simps [of 18] showNat.simps [of "Suc 0"])
  ultimately show ?thesis
    by (simp add: toFixed3_def Let_def)
qed

text \<open>
  C9. In the terminal component, which is where \<^verbatim>\<open>calcMolarMass\<close> and its regular-expression
  scan live, the line \<^verbatim>\<open>chemistry molar H2O\<close> is read as the command
  \<^verbatim>\<open>chemistry\<close> with the arguments \<^verbatim>\<open>molar\<close> and \<^verbatim>\<open>H2O\<close>; the branch for \<^verbatim>\<open>molar\<close>
  runs on \<^verbatim>\<open>H2O\<close>; the scan of the formula gives 2 times 1.008 for hydrogen plus 1 times
  15.999 for oxygen, which is 18.015; this is positive, so the command reports the molar
  mass, as the line \<^verbatim>\<open>18.015 g/mol\<close>, and not a formula that could not be parsed.
\<close>

theorem terminal_chemistry_molar_H2O:
  "toLowerCase (terminalParts ''chemistry molar H2O'' ! 0) = ''chemistry'' \<and>
   drop 1 (terminalParts ''chemistry molar H2O'') = [''molar'', ''H2O''] \<and>
   chemistryCase (drop 1 (terminalParts ''chemistry molar H2O'')) = ChemistryMolar ''H2O'' \<and>
   calcMolarMass ''H2O'' = 2 * (1008 / 1000) + 1 * (15999 / 1000) \<and>
   calcMolarMass ''H2O'' = 18015 / 1000 \<and>
   chemistryMolar ''H2O'' =
     ['''',
      [CHR 0x1B] @ ''[36mMolar Mass of H2O'' @ [CHR 0x1B] @ ''[0m'',
      ''  '' @ [CHR 0x1B] @ ''[32m18.015 g/mol'' @ [CHR 0x1B] @ ''[0m'',
      '''']"
proof -
  have mass: "calcMolarMass ''H2O'' = 18015 / 1000"
    using calcMolarMass_H2O by blast
  have parts: "terminalParts ''chemistry molar H2O'' = [''chemistry'', ''molar'', ''H2O'']"
    by (simp add: terminalParts_def trim_def isWhiteSpace_def)
  have "toLowerCase ''chemistry'' = ''chemistry''"
    by code_simp
  then have "toLowerCase (terminalParts ''chemistry molar H2O'' ! 0) = ''chemistry''"
    by (simp add: parts)
  moreover have "drop 1 (terminalParts ''chemistry molar H2O'') = [''molar'', ''H2O'']"
    by (simp add: parts)
  moreover have "chemistryCase [''molar'', ''H2O''] = ChemistryMolar ''H2O''"
    by code_simp
  moreover have "chemistryMolar ''H2O'' =
     ['''',
      [CHR 0x1B] @ ''[36mMolar Mass of H2O'' @ [CHR 0x1B] @ ''[0m'',
      ''  '' @ [CHR 0x1B] @ ''[32m18.015 g/mol'' @ [CHR 0x1B] @ ''[0m'',
      '''']"
    unfolding chemistryMolar_def Let_def mass toFixed3_18015 by simp
  ultimately show ?thesis
    using calcMolarMass_H2O by simp
qed

end
